theory Spec2Isabelle
  imports Complex_Main "HOL-Library.Word" "HOL-Library.AList"
begin

section \<open>JavaScript values\<close>

text \<open>
  A JavaScript \<^verbatim>\<open>number\<close> is a finite value, one of the two infinities, or NaN.
  Finite values are modelled as exact reals: the arithmetic below is the arithmetic of
  IEEE doubles without rounding error and without overflow. The case distinctions on
  NaN and the infinities are the ones of the language.
\<close>

datatype jsnum = Fin real | PosInf | NegInf | NaN

fun js_neg :: "jsnum \<Rightarrow> jsnum" where
  "js_neg (Fin a) = Fin (- a)"
| "js_neg PosInf = NegInf"
| "js_neg NegInf = PosInf"
| "js_neg NaN = NaN"

text \<open>The operator \<^verbatim>\<open>+\<close> on numbers.\<close>

fun js_add :: "jsnum \<Rightarrow> jsnum \<Rightarrow> jsnum" where
  "js_add NaN _ = NaN"
| "js_add _ NaN = NaN"
| "js_add PosInf NegInf = NaN"
| "js_add NegInf PosInf = NaN"
| "js_add PosInf _ = PosInf"
| "js_add _ PosInf = PosInf"
| "js_add NegInf _ = NegInf"
| "js_add _ NegInf = NegInf"
| "js_add (Fin a) (Fin b) = Fin (a + b)"

text \<open>The operator \<^verbatim>\<open>-\<close> on numbers.\<close>

definition js_sub :: "jsnum \<Rightarrow> jsnum \<Rightarrow> jsnum" where
  "js_sub a b = js_add a (js_neg b)"

text \<open>The operator \<^verbatim>\<open>*\<close> on numbers: an infinity times zero is NaN.\<close>

fun js_mul :: "jsnum \<Rightarrow> jsnum \<Rightarrow> jsnum" where
  "js_mul NaN _ = NaN"
| "js_mul _ NaN = NaN"
| "js_mul (Fin a) (Fin b) = Fin (a * b)"
| "js_mul (Fin a) PosInf = (if 0 < a then PosInf else if a < 0 then NegInf else NaN)"
| "js_mul (Fin a) NegInf = (if 0 < a then NegInf else if a < 0 then PosInf else NaN)"
| "js_mul PosInf (Fin b) = (if 0 < b then PosInf else if b < 0 then NegInf else NaN)"
| "js_mul NegInf (Fin b) = (if 0 < b then NegInf else if b < 0 then PosInf else NaN)"
| "js_mul PosInf PosInf = PosInf"
| "js_mul NegInf NegInf = PosInf"
| "js_mul PosInf NegInf = NegInf"
| "js_mul NegInf PosInf = NegInf"

text \<open>The comparisons \<^verbatim>\<open>a > b\<close> and \<^verbatim>\<open>a <= b\<close>: both are false when an operand is NaN.\<close>

fun js_gt :: "jsnum \<Rightarrow> jsnum \<Rightarrow> bool" where
  "js_gt NaN _ = False"
| "js_gt _ NaN = False"
| "js_gt (Fin a) (Fin b) = (b < a)"
| "js_gt PosInf PosInf = False"
| "js_gt PosInf _ = True"
| "js_gt NegInf _ = False"
| "js_gt (Fin a) PosInf = False"
| "js_gt (Fin a) NegInf = True"

fun js_le :: "jsnum \<Rightarrow> jsnum \<Rightarrow> bool" where
  "js_le NaN _ = False"
| "js_le _ NaN = False"
| "js_le a b = (\<not> js_gt a b)"

fun isNaN :: "jsnum \<Rightarrow> bool" where
  "isNaN NaN = True"
| "isNaN _ = False"

fun Math_abs :: "jsnum \<Rightarrow> jsnum" where
  "Math_abs (Fin a) = Fin \<bar>a\<bar>"
| "Math_abs PosInf = PosInf"
| "Math_abs NegInf = PosInf"
| "Math_abs NaN = NaN"


text \<open>
  A JavaScript string is a sequence of 16-bit code units (UTF-16). The literal
  \<open>js ''abc''\<close> is the string of the ASCII characters given.
\<close>

type_synonym jsstring = "16 word list"

definition js :: "string \<Rightarrow> jsstring" where
  "js s = map (\<lambda>c. of_nat (of_char c)) s"

text \<open>
  Iterating a string (the spread \<^verbatim>\<open>[...str]\<close>) yields one element per code point:
  a high surrogate followed by a low surrogate is one element of two code units, every
  other code unit (an unpaired surrogate too) is an element of its own.
\<close>

definition isHighSurrogate :: "16 word \<Rightarrow> bool" where
  "isHighSurrogate u \<longleftrightarrow> 0xD800 \<le> u \<and> u \<le> 0xDBFF"

definition isLowSurrogate :: "16 word \<Rightarrow> bool" where
  "isLowSurrogate u \<longleftrightarrow> 0xDC00 \<le> u \<and> u \<le> 0xDFFF"

datatype jschar = CodeUnit "16 word" | SurrogatePair "16 word" "16 word"

fun spread :: "jsstring \<Rightarrow> jschar list" where
  "spread [] = []"
| "spread [u] = [CodeUnit u]"
| "spread (u # v # rest) =
     (if isHighSurrogate u \<and> isLowSurrogate v then SurrogatePair u v # spread rest
      else CodeUnit u # spread (v # rest))"

text \<open>\<^verbatim>\<open>char.charCodeAt(0)\<close> on an element of the iteration: its first code unit.\<close>

fun charCodeAt0 :: "jschar \<Rightarrow> int" where
  "charCodeAt0 (CodeUnit u) = uint u"
| "charCodeAt0 (SurrogatePair h l) = uint h"

text \<open>The Unicode code point an element of the iteration stands for.\<close>

fun codePoint :: "jschar \<Rightarrow> int" where
  "codePoint (CodeUnit u) = uint u"
| "codePoint (SurrogatePair h l) = 0x10000 + (uint h - 0xD800) * 0x400 + (uint l - 0xDC00)"

text \<open>\<^verbatim>\<open>String(n)\<close> for an array index \<open>n\<close>: its decimal digits.\<close>

function decimal :: "nat \<Rightarrow> jsstring" where
  "decimal n = (if n < 10 then [of_nat (48 + n)] else decimal (n div 10) @ [of_nat (48 + n mod 10)])"
  by pat_completeness auto
termination
  by (relation "measure id") auto

declare decimal.simps [simp del]

text \<open>\<^verbatim>\<open>parts.join(sep)\<close> on an array of strings.\<close>

fun join :: "jsstring \<Rightarrow> jsstring list \<Rightarrow> jsstring" where
  "join sep [] = []"
| "join sep [p] = p"
| "join sep (p # q # ps) = p @ sep @ join sep (q # ps)"

section \<open>Leg calculator (distanceCalculator.ts)\<close>

datatype TransportMode = Road | Sea

record JourneyLeg =
  mode :: TransportMode
  leg_distance :: jsnum
  leg_weight :: jsnum

text \<open>
  \<^verbatim>\<open>fakeDistance\<close>. The character codes are integers below \<open>2 ^ 16\<close> and their sum
  stays far below \<open>2 ^ 53\<close>, so the sum, the absolute value and the remainder are
  exact integer operations; on a non-negative dividend \<^verbatim>\<open>%\<close> is \<open>mod\<close>.
\<close>

definition charCodeSum :: "jsstring \<Rightarrow> int" where
  "charCodeSum str = foldl (\<lambda>acc char. acc + charCodeAt0 char) 0 (spread str)"

definition fakeDistance :: "jsstring \<Rightarrow> jsstring \<Rightarrow> jsnum" where
  "fakeDistance from to = (let str = from @ to in Fin (of_int (\<bar>charCodeSum str\<bar> mod 3000 + 100)))"

definition calculateJourneyLegs :: "jsnum \<Rightarrow> jsnum \<Rightarrow> JourneyLeg list" where
  "calculateJourneyLegs distance weight =
     (if js_gt distance (Fin 1500) then
        [\<lparr>mode = Road, leg_distance = Fin 100, leg_weight = weight\<rparr>,
         \<lparr>mode = Sea, leg_distance = js_sub distance (Fin 200), leg_weight = weight\<rparr>,
         \<lparr>mode = Road, leg_distance = Fin 100, leg_weight = weight\<rparr>]
      else
        [\<lparr>mode = Road, leg_distance = distance, leg_weight = weight\<rparr>])"

fun modeString :: "TransportMode \<Rightarrow> jsstring" where
  "modeString Road = js ''Road''"
| "modeString Sea = js ''Sea''"

definition getTransportModesString :: "JourneyLeg list \<Rightarrow> jsstring" where
  "getTransportModesString legs = (let modes = map (\<lambda>leg. modeString (mode leg)) legs in join (js '' + '') modes)"

section \<open>Aggregator (dataAggregator.ts)\<close>

record TransportRow =
  origin :: jsstring
  originCountry :: jsstring
  destination :: jsstring
  destinationCountry :: jsstring
  weightKg :: jsnum

record JourneyRoute =
  route_origin :: jsstring
  route_destination :: jsstring
  route_originCountry :: jsstring
  route_destinationCountry :: jsstring

record Journey =
  journey_id :: jsstring
  route :: JourneyRoute
  weight :: jsnum
  distance :: jsnum
  legs :: "JourneyLeg list"
  totalRoadWeight :: jsnum
  totalSeaWeight :: jsnum

record GroupRoute =
  group_origin :: jsstring
  group_destination :: jsstring

record RouteGroup =
  routeKey :: jsstring
  group_route :: GroupRoute
  group_distance :: jsnum
  timesTaken :: nat
  totalDistance :: jsnum
  modes :: jsstring
  totalWeight :: jsnum
  group_totalRoadWeight :: jsnum
  group_totalSeaWeight :: jsnum
  journeys :: "Journey list"


record ProcessResult =
  res_journeys :: "Journey list"
  res_routeGroups :: "RouteGroup list"

text \<open>Reading a property of \<^verbatim>\<open>undefined\<close> throws a TypeError.\<close>

datatype js_error = TypeError

text \<open>
  Local variables of the source whose names are also field names carry a prime below.
  Step 1: the callback of \<^verbatim>\<open>csvData.map((row, index) => ...)\<close>.
\<close>

definition toJourney :: "TransportRow \<Rightarrow> nat \<Rightarrow> Journey" where
  "toJourney row index =
     (let distance' = fakeDistance (origin row) (destination row);
          legs' = calculateJourneyLegs distance' (weightKg row);
          usesRoad = list_ex (\<lambda>leg. mode leg = Road) legs';
          usesSea = list_ex (\<lambda>leg. mode leg = Sea) legs';
          totalRoadWeight' = (if usesRoad then weightKg row else Fin 0);
          totalSeaWeight' = (if usesSea then weightKg row else Fin 0)
      in \<lparr>journey_id = js ''journey-'' @ decimal index,
          route = \<lparr>route_origin = origin row, route_destination = destination row,
                   route_originCountry = originCountry row,
                   route_destinationCountry = destinationCountry row\<rparr>,
          weight = weightKg row,
          distance = distance',
          legs = legs',
          totalRoadWeight = totalRoadWeight',
          totalSeaWeight = totalSeaWeight'\<rparr>)"

text \<open>
  Step 2. The template literal of the route key puts the three code units
  space, U+2192 (rightwards arrow), space between origin and destination. A \<^verbatim>\<open>Map\<close>
  keeps its keys in the order of their first insertion: an association list, where
  \<open>AList.update\<close> replaces the value of a key in place and appends a new key at the end.
\<close>

definition arrow :: jsstring where
  "arrow = [0x20, 0x2192, 0x20]"

definition routeKeyOf :: "Journey \<Rightarrow> jsstring" where
  "routeKeyOf journey = route_origin (route journey) @ arrow @ route_destination (route journey)"

type_synonym routeMap = "(jsstring \<times> Journey list) list"

definition addToRouteMap :: "routeMap \<Rightarrow> Journey \<Rightarrow> routeMap" where
  "addToRouteMap routeMap journey =
     (let routeKey' = routeKeyOf journey;
          existing = (case map_of routeMap routeKey' of Some found \<Rightarrow> found | None \<Rightarrow> [])
      in AList.update routeKey' (existing @ [journey]) routeMap)"

definition buildRouteMap :: "Journey list \<Rightarrow> routeMap" where
  "buildRouteMap journeyList = foldl addToRouteMap [] journeyList"

text \<open>\<^verbatim>\<open>journeys.reduce((sum, j) => sum + f(j), 0)\<close>.\<close>

definition sumOf :: "(Journey \<Rightarrow> jsnum) \<Rightarrow> Journey list \<Rightarrow> jsnum" where
  "sumOf f journeyList = foldl (\<lambda>sum j. js_add sum (f j)) (Fin 0) journeyList"

text \<open>
  Step 3: the callback of the map over the entries. \<^verbatim>\<open>journeys[0]\<close> of an empty array
  is \<^verbatim>\<open>undefined\<close>, and reading its \<^verbatim>\<open>distance\<close> throws.
\<close>

definition toRouteGroup :: "jsstring \<times> Journey list \<Rightarrow> js_error + RouteGroup" where
  "toRouteGroup entry =
     (case entry of (routeKey', journeys') \<Rightarrow>
        (case journeys' of
           [] \<Rightarrow> Inl TypeError
         | firstJourney # _ \<Rightarrow>
             (let distance' = distance firstJourney;
                  modes' = getTransportModesString (legs firstJourney);
                  totalWeight' = sumOf weight journeys';
                  totalRoadWeight' = sumOf totalRoadWeight journeys';
                  totalSeaWeight' = sumOf totalSeaWeight journeys'
              in Inr \<lparr>routeKey = routeKey',
                      group_route = \<lparr>group_origin = route_origin (route firstJourney),
                                     group_destination = route_destination (route firstJourney)\<rparr>,
                      group_distance = distance',
                      timesTaken = length journeys',
                      totalDistance = js_mul distance' (Fin (of_nat (length journeys'))),
                      modes = modes',
                      totalWeight = totalWeight',
                      group_totalRoadWeight = totalRoadWeight',
                      group_totalSeaWeight = totalSeaWeight',
                      journeys = journeys'\<rparr>)))"

text \<open>A map whose callback may throw: the first exception ends it.\<close>

fun mapE :: "('a \<Rightarrow> 'e + 'b) \<Rightarrow> 'a list \<Rightarrow> 'e + 'b list" where
  "mapE f [] = Inr []"
| "mapE f (x # xs) =
     (case f x of
        Inl e \<Rightarrow> Inl e
      | Inr y \<Rightarrow> (case mapE f xs of Inl e \<Rightarrow> Inl e | Inr ys \<Rightarrow> Inr (y # ys)))"

definition processCsvData :: "TransportRow list \<Rightarrow> js_error + ProcessResult" where
  "processCsvData csvData =
     (let journeys' = map (\<lambda>(index, row). toJourney row index) (enumerate 0 csvData);
          routeMap = buildRouteMap journeys'
      in case mapE toRouteGroup routeMap of
           Inl e \<Rightarrow> Inl e
         | Inr routeGroups \<Rightarrow> Inr \<lparr>res_journeys = journeys', res_routeGroups = routeGroups\<rparr>)"


section \<open>Row validator (transportRowSchema.ts, csvParser.ts)\<close>

text \<open>
  The value of a field of a raw record, as the CSV parser hands it over: a string, a
  number, a boolean, \<^verbatim>\<open>null\<close>, or nothing at all (\<^verbatim>\<open>undefined\<close>, the key is absent).
\<close>

datatype rawval = JUndefined | JNull | JBool bool | JNum jsnum | JStr jsstring

record RawRow =
  raw_origin :: rawval
  raw_originCountry :: rawval
  raw_destination :: rawval
  raw_destinationCountry :: rawval
  raw_weightKg :: rawval

text \<open>White space and line terminators of the language, as \<^verbatim>\<open>trim\<close> and \<^verbatim>\<open>parseFloat\<close> skip them.\<close>

definition isWhiteSpace :: "16 word \<Rightarrow> bool" where
  "isWhiteSpace u \<longleftrightarrow>
     u \<in> {0x9, 0xA, 0xB, 0xC, 0xD, 0x20, 0xA0, 0x1680, 0x2028, 0x2029, 0x202F, 0x205F, 0x3000, 0xFEFF}
     \<or> (0x2000 \<le> u \<and> u \<le> 0x200A)"

definition trim :: "jsstring \<Rightarrow> jsstring" where
  "trim s = rev (dropWhile isWhiteSpace (rev (dropWhile isWhiteSpace s)))"

definition isDigit :: "16 word \<Rightarrow> bool" where
  "isDigit u \<longleftrightarrow> 0x30 \<le> u \<and> u \<le> 0x39"

definition digitsValue :: "jsstring \<Rightarrow> nat" where
  "digitsValue ds = foldl (\<lambda>acc d. 10 * acc + (unat d - 48)) 0 ds"

text \<open>
  \<^verbatim>\<open>parseFloat\<close> reads the longest prefix of the string, after leading white space,
  that is a decimal literal: an optional sign, then \<^verbatim>\<open>Infinity\<close> or digits with an
  optional fraction and an optional exponent; what follows is ignored, and NaN is the
  result when there is no such prefix. The value is the literal's exact value.
\<close>

definition exponentDigits :: "jsstring \<Rightarrow> nat option" where
  "exponentDigits s = (let ds = takeWhile isDigit s in if ds = [] then None else Some (digitsValue ds))"

definition exponentFactor :: "jsstring \<Rightarrow> real" where
  "exponentFactor s =
     (case s of
        [] \<Rightarrow> 1
      | e # r \<Rightarrow>
          if e = 0x65 \<or> e = 0x45 then
            (case r of
               [] \<Rightarrow> 1
             | sg # r' \<Rightarrow>
                 if sg = 0x2D then (case exponentDigits r' of None \<Rightarrow> 1 | Some k \<Rightarrow> 1 / 10 ^ k)
                 else if sg = 0x2B then (case exponentDigits r' of None \<Rightarrow> 1 | Some k \<Rightarrow> 10 ^ k)
                 else (case exponentDigits r of None \<Rightarrow> 1 | Some k \<Rightarrow> 10 ^ k))
          else 1)"

definition parseFloat :: "jsstring \<Rightarrow> jsnum" where
  "parseFloat inputString =
     (let trimmed = dropWhile isWhiteSpace inputString;
          negative = (case trimmed of [] \<Rightarrow> False | c # _ \<Rightarrow> c = 0x2D);
          unsigned = (case trimmed of [] \<Rightarrow> [] | c # r \<Rightarrow> if c = 0x2D \<or> c = 0x2B then r else trimmed)
      in if take 8 unsigned = js ''Infinity'' then (if negative then NegInf else PosInf)
         else
           (let intPart = takeWhile isDigit unsigned;
                afterInt = dropWhile isDigit unsigned;
                fracPart = (case afterInt of [] \<Rightarrow> [] | c # r \<Rightarrow> if c = 0x2E then takeWhile isDigit r else []);
                afterFrac = (case afterInt of [] \<Rightarrow> [] | c # r \<Rightarrow> if c = 0x2E then dropWhile isDigit r else afterInt)
            in if intPart = [] \<and> fracPart = [] then NaN
               else
                 (let mantissa = real (digitsValue intPart) + real (digitsValue fracPart) / 10 ^ length fracPart;
                      magnitude = mantissa * exponentFactor afterFrac
                  in Fin (if negative then - magnitude else magnitude))))"

text \<open>
  \<^verbatim>\<open>parseFloat(String(val))\<close>. A number printed and read back is the same number (NaN
  and the infinities too); the other values print as the words below.
\<close>

fun parseFloatString :: "rawval \<Rightarrow> jsnum" where
  "parseFloatString (JNum n) = n"
| "parseFloatString (JStr s) = parseFloat s"
| "parseFloatString JUndefined = parseFloat (js ''undefined'')"
| "parseFloatString JNull = parseFloat (js ''null'')"
| "parseFloatString (JBool b) = parseFloat (js (if b then ''true'' else ''false''))"

text \<open>
  The issues of the schema library (version 3, the one whose messages the tests of the
  repository expect). An issue has a code, the path of the field and a message.
\<close>

datatype field = F_origin | F_originCountry | F_destination | F_destinationCountry | F_weightKg

datatype issueCode = invalid_type | too_small

record ZodIssue =
  code :: issueCode
  path :: "field list"
  message :: string

fun parsedType :: "rawval \<Rightarrow> string" where
  "parsedType JUndefined = ''undefined''"
| "parsedType JNull = ''null''"
| "parsedType (JBool b) = ''boolean''"
| "parsedType (JNum n) = (if isNaN n then ''nan'' else ''number'')"
| "parsedType (JStr s) = ''string''"

definition invalidType :: "string \<Rightarrow> field \<Rightarrow> rawval \<Rightarrow> ZodIssue" where
  "invalidType expected f v =
     \<lparr>code = invalid_type, path = [f],
      message = (if v = JUndefined then ''Required''
                 else ''Expected '' @ expected @ '', received '' @ parsedType v)\<rparr>"

text \<open>\<^verbatim>\<open>z.string().trim().min(1, msg)\<close>: the checks run in order, \<open>min\<close> on the trimmed string.\<close>

definition z_string_trim_min1 :: "string \<Rightarrow> field \<Rightarrow> rawval \<Rightarrow> ZodIssue list + jsstring" where
  "z_string_trim_min1 msg f v =
     (case v of
        JStr s \<Rightarrow>
          (let t = trim s
           in if length t < 1 then Inl [\<lparr>code = too_small, path = [f], message = msg\<rparr>] else Inr t)
      | _ \<Rightarrow> Inl [invalidType ''string'' f v])"

text \<open>\<^verbatim>\<open>z.string().trim().default('')\<close>: the default stands in for \<^verbatim>\<open>undefined\<close> only.\<close>

definition z_string_trim_default :: "field \<Rightarrow> rawval \<Rightarrow> ZodIssue list + jsstring" where
  "z_string_trim_default f v =
     (let v' = (if v = JUndefined then JStr [] else v)
      in case v' of
           JStr s \<Rightarrow> Inr (trim s)
         | _ \<Rightarrow> Inl [invalidType ''string'' f v'])"

text \<open>The preprocessing function of \<^verbatim>\<open>weightKg\<close>.\<close>

definition preprocessWeight :: "rawval \<Rightarrow> rawval" where
  "preprocessWeight val = (let num = parseFloatString val in if isNaN num then val else JNum (Math_abs num))"

text \<open>\<^verbatim>\<open>z.number().positive(msg)\<close>: a number that is not NaN and is not \<^verbatim>\<open><= 0\<close>.\<close>

definition z_number_positive :: "string \<Rightarrow> field \<Rightarrow> rawval \<Rightarrow> ZodIssue list + jsnum" where
  "z_number_positive msg f v =
     (case v of
        JNum n \<Rightarrow>
          if isNaN n then Inl [invalidType ''number'' f v]
          else if js_le n (Fin 0) then Inl [\<lparr>code = too_small, path = [f], message = msg\<rparr>]
          else Inr n
      | _ \<Rightarrow> Inl [invalidType ''number'' f v])"

definition weightKgSchema :: "rawval \<Rightarrow> ZodIssue list + jsnum" where
  "weightKgSchema val = z_number_positive ''Weight must be a positive number'' F_weightKg (preprocessWeight val)"

datatype 'a SafeParseResult = Success 'a | Failure "ZodIssue list"

fun issuesOf :: "ZodIssue list + 'a \<Rightarrow> ZodIssue list" where
  "issuesOf (Inl is) = is"
| "issuesOf (Inr _) = []"

text \<open>
  \<^verbatim>\<open>TransportRowSchema.safeParse(row)\<close>: every field of the shape is parsed, in the
  order of the shape, and the issues of all of them are collected.
\<close>

definition safeParse :: "RawRow \<Rightarrow> TransportRow SafeParseResult" where
  "safeParse row =
     (let o' = z_string_trim_min1 ''Origin is required'' F_origin (raw_origin row);
          oc = z_string_trim_default F_originCountry (raw_originCountry row);
          d = z_string_trim_min1 ''Destination is required'' F_destination (raw_destination row);
          dc = z_string_trim_default F_destinationCountry (raw_destinationCountry row);
          w = weightKgSchema (raw_weightKg row)
      in case (o', oc, d, dc, w) of
           (Inr o'', Inr oc', Inr d', Inr dc', Inr w') \<Rightarrow>
             Success \<lparr>origin = o'', originCountry = oc', destination = d',
                      destinationCountry = dc', weightKg = w'\<rparr>
         | _ \<Rightarrow> Failure (issuesOf o' @ issuesOf oc @ issuesOf d @ issuesOf dc @ issuesOf w))"

text \<open>
  The issue list of the failure branch of \<open>safeParse\<close>: the issues of the five fields
  of a raw record, in the order of the shape.
\<close>

definition rowIssues :: "RawRow \<Rightarrow> ZodIssue list" where
  "rowIssues row =
     issuesOf (z_string_trim_min1 ''Origin is required'' F_origin (raw_origin row)) @
     issuesOf (z_string_trim_default F_originCountry (raw_originCountry row)) @
     issuesOf (z_string_trim_min1 ''Destination is required'' F_destination (raw_destination row)) @
     issuesOf (z_string_trim_default F_destinationCountry (raw_destinationCountry row)) @
     issuesOf (weightKgSchema (raw_weightKg row))"

record ValidationError =
  rowIndex :: nat
  errors :: "ZodIssue list"

record CsvParseResult =
  validRows :: "TransportRow list"
  result_errors :: "ValidationError list"

text \<open>
  The body of the \<^verbatim>\<open>complete\<close> callback of \<^verbatim>\<open>parseCsvFile\<close>: the loop over the parsed
  records, which pushes to one of the two arrays.
\<close>

definition validateRow :: "CsvParseResult \<Rightarrow> nat \<times> RawRow \<Rightarrow> CsvParseResult" where
  "validateRow acc entry =
     (case entry of (index, row) \<Rightarrow>
        (case safeParse row of
           Success data \<Rightarrow> acc\<lparr>validRows := validRows acc @ [data]\<rparr>
         | Failure issues \<Rightarrow>
             acc\<lparr>result_errors := result_errors acc @ [\<lparr>rowIndex = index + 1, errors = issues\<rparr>]\<rparr>))"

definition parseCsvFile :: "RawRow list \<Rightarrow> CsvParseResult" where
  "parseCsvFile data = foldl validateRow \<lparr>validRows = [], result_errors = []\<rparr> (enumerate 0 data)"

section \<open>The aggregator never throws\<close>

text \<open>
  The route map built in step 2 holds, under every key, the journeys with that key in
  their input order, and no key twice; so no group is empty, and step 3 finds a first
  member in every group.
\<close>

lemma buildRouteMap_snoc:
  "buildRouteMap (jl @ [j]) = addToRouteMap (buildRouteMap jl) j"
  by (simp add: buildRouteMap_def)

lemma buildRouteMap_distinct: "distinct (map fst (buildRouteMap jl))"
proof (induction jl rule: rev_induct)
  case Nil
  show ?case by (simp add: buildRouteMap_def)
next
  case (snoc j jl)
  then show ?case
    by (simp add: buildRouteMap_snoc addToRouteMap_def Let_def distinct_update)
qed

lemma buildRouteMap_lookup:
  "map_of (buildRouteMap jl) k =
     (if k \<in> routeKeyOf ` set jl then Some (filter (\<lambda>j. routeKeyOf j = k) jl) else None)"
proof (induction jl rule: rev_induct)
  case Nil
  show ?case by (simp add: buildRouteMap_def)
next
  case (snoc j jl)
  have none: "filter (\<lambda>x. routeKeyOf x = k) jl = []" if "k \<notin> routeKeyOf ` set jl"
    using that by (auto simp add: filter_empty_conv)
  show ?case
  proof (cases "k = routeKeyOf j")
    case True
    with snoc none show ?thesis
      by (simp add: buildRouteMap_snoc addToRouteMap_def Let_def update_conv')
  next
    case False
    then have "routeKeyOf j \<noteq> k" by simp
    with False snoc show ?thesis
      by (simp add: buildRouteMap_snoc addToRouteMap_def Let_def update_conv')
  qed
qed

lemma buildRouteMap_entry:
  assumes "(k, v) \<in> set (buildRouteMap jl)"
  shows "v = filter (\<lambda>j. routeKeyOf j = k) jl \<and> v \<noteq> [] \<and> k \<in> routeKeyOf ` set jl"
proof -
  from assms buildRouteMap_distinct have "map_of (buildRouteMap jl) k = Some v"
    by simp
  then have m: "k \<in> routeKeyOf ` set jl" and v: "v = filter (\<lambda>j. routeKeyOf j = k) jl"
    by (auto simp add: buildRouteMap_lookup split: if_splits)
  from m obtain j where "j \<in> set jl" "routeKeyOf j = k" by auto
  then have "j \<in> set (filter (\<lambda>j. routeKeyOf j = k) jl)" by simp
  then have "filter (\<lambda>j. routeKeyOf j = k) jl \<noteq> []" by (metis empty_iff list.set(1))
  with m v show ?thesis by simp
qed

lemma mapE_Inr:
  "(\<And>x. x \<in> set xs \<Longrightarrow> \<not> isl (f x)) \<Longrightarrow> mapE f xs = Inr (map (\<lambda>x. projr (f x)) xs)"
proof (induction xs)
  case Nil
  show ?case by simp
next
  case (Cons x xs)
  then have "\<not> isl (f x)" by simp
  then obtain y where y: "f x = Inr y" by (cases "f x") auto
  from Cons have "mapE f xs = Inr (map (\<lambda>x. projr (f x)) xs)" by simp
  with y show ?case by simp
qed

lemma toRouteGroup_nonempty:
  "v \<noteq> [] \<Longrightarrow> \<not> isl (toRouteGroup (k, v))"
  by (cases v) (simp_all add: toRouteGroup_def Let_def)

lemma processCsvData_total:
  "processCsvData rows =
     Inr \<lparr>res_journeys = map (\<lambda>(index, row). toJourney row index) (enumerate 0 rows),
          res_routeGroups = map (\<lambda>e. projr (toRouteGroup e))
             (buildRouteMap (map (\<lambda>(index, row). toJourney row index) (enumerate 0 rows)))\<rparr>"
proof -
  let ?jl = "map (\<lambda>(index, row). toJourney row index) (enumerate 0 rows)"
  have "\<not> isl (toRouteGroup e)" if "e \<in> set (buildRouteMap ?jl)" for e
  proof -
    obtain k v where e: "e = (k, v)" by (cases e)
    with that buildRouteMap_entry have "v \<noteq> []" by blast
    with e show ?thesis by (simp add: toRouteGroup_nonempty)
  qed
  then have "mapE toRouteGroup (buildRouteMap ?jl) = Inr (map (\<lambda>e. projr (toRouteGroup e)) (buildRouteMap ?jl))"
    by (rule mapE_Inr)
  then show ?thesis by (simp add: processCsvData_def Let_def)
qed

section \<open>Leg policy\<close>



section \<open>Chart totals\<close>






section \<open>Journeys\<close>

lemma toJourney_fields:
  "weight (toJourney r i) = weightKg r"
  "distance (toJourney r i) = fakeDistance (origin r) (destination r)"
  "legs (toJourney r i) = calculateJourneyLegs (fakeDistance (origin r) (destination r)) (weightKg r)"
  "totalRoadWeight (toJourney r i) = (if list_ex (\<lambda>leg. mode leg = Road) (legs (toJourney r i)) then weightKg r else Fin 0)"
  "totalSeaWeight (toJourney r i) = (if list_ex (\<lambda>leg. mode leg = Sea) (legs (toJourney r i)) then weightKg r else Fin 0)"
  "route_origin (route (toJourney r i)) = origin r"
  "route_destination (route (toJourney r i)) = destination r"
  by (simp_all add: toJourney_def Let_def)

lemma res_journeys_length:
  "processCsvData rows = Inr res \<Longrightarrow> length (res_journeys res) = length rows"
  by (auto simp add: processCsvData_total)

lemma res_journeys_nth:
  "processCsvData rows = Inr res \<Longrightarrow> i < length rows \<Longrightarrow> res_journeys res ! i = toJourney (rows ! i) i"
  by (auto simp add: processCsvData_total nth_enumerate_eq)

lemma three_legs_modes:
  "length (calculateJourneyLegs d w) = 3 \<Longrightarrow> map mode (calculateJourneyLegs d w) = [Road, Sea, Road]"
  by (simp add: calculateJourneyLegs_def split: if_splits)

text \<open>
  Claim C1. The aggregator returns one journey per row, in the order of the rows, and
  the journey of a row carries the row's \<open>weightKg\<close> as \<open>totalRoadWeight\<close> when one of
  its legs is a Road leg and 0 otherwise, and as \<open>totalSeaWeight\<close> when one of its legs
  is a Sea leg and 0 otherwise. A journey of three legs is Road, Sea, Road, and both
  totals are the weight itself, counted once.
\<close>

theorem journey_weight_once_per_mode:
  "\<exists>res. processCsvData rows = Inr res \<and> length (res_journeys res) = length rows \<and>
     (\<forall>i<length rows.
        weight (res_journeys res ! i) = weightKg (rows ! i) \<and>
        legs (res_journeys res ! i) =
          calculateJourneyLegs (fakeDistance (origin (rows ! i)) (destination (rows ! i))) (weightKg (rows ! i)) \<and>
        totalRoadWeight (res_journeys res ! i) =
          (if \<exists>leg\<in>set (legs (res_journeys res ! i)). mode leg = Road then weightKg (rows ! i) else Fin 0) \<and>
        totalSeaWeight (res_journeys res ! i) =
          (if \<exists>leg\<in>set (legs (res_journeys res ! i)). mode leg = Sea then weightKg (rows ! i) else Fin 0) \<and>
        (length (legs (res_journeys res ! i)) = 3 \<longrightarrow>
           map mode (legs (res_journeys res ! i)) = [Road, Sea, Road] \<and>
           totalRoadWeight (res_journeys res ! i) = weightKg (rows ! i) \<and>
           totalSeaWeight (res_journeys res ! i) = weightKg (rows ! i)))"
proof -
  obtain res where res: "processCsvData rows = Inr res"
    by (simp add: processCsvData_total)
  have "weight (res_journeys res ! i) = weightKg (rows ! i) \<and>
        legs (res_journeys res ! i) =
          calculateJourneyLegs (fakeDistance (origin (rows ! i)) (destination (rows ! i))) (weightKg (rows ! i)) \<and>
        totalRoadWeight (res_journeys res ! i) =
          (if \<exists>leg\<in>set (legs (res_journeys res ! i)). mode leg = Road then weightKg (rows ! i) else Fin 0) \<and>
        totalSeaWeight (res_journeys res ! i) =
          (if \<exists>leg\<in>set (legs (res_journeys res ! i)). mode leg = Sea then weightKg (rows ! i) else Fin 0) \<and>
        (length (legs (res_journeys res ! i)) = 3 \<longrightarrow>
           map mode (legs (res_journeys res ! i)) = [Road, Sea, Road] \<and>
           totalRoadWeight (res_journeys res ! i) = weightKg (rows ! i) \<and>
           totalSeaWeight (res_journeys res ! i) = weightKg (rows ! i))" if i: "i < length rows" for i
  proof -
    let ?r = "rows ! i"
    let ?l = "calculateJourneyLegs (fakeDistance (origin ?r) (destination ?r)) (weightKg ?r)"
    have j: "res_journeys res ! i = toJourney ?r i"
      using res i by (rule res_journeys_nth)
    have three: "map mode ?l = [Road, Sea, Road]" if "length ?l = 3"
      using that by (rule three_legs_modes)
    have ex: "list_ex P ?l \<longleftrightarrow> (\<exists>leg\<in>set ?l. P leg)" for P
      by (simp add: list_ex_iff)
    have road3: "\<exists>leg\<in>set ?l. mode leg = Road" and sea3: "\<exists>leg\<in>set ?l. mode leg = Sea" if "length ?l = 3"
      using that by (auto simp add: calculateJourneyLegs_def split: if_splits)
    show ?thesis
      unfolding j toJourney_fields(1,3) 
      using three road3 sea3 by (simp add: toJourney_fields list_ex_iff)
  qed
  with res res_journeys_length [OF res] show ?thesis
    by blast
qed


theorem journey_weight_once_per_mode_witness:
  "\<exists>res. processCsvData
           [\<lparr>origin = js ''Hamburg'', originCountry = js ''DE'', destination = js ''Shanghai'',
             destinationCountry = js ''CN'', weightKg = Fin 1000\<rparr>] = Inr res \<and>
     length (res_journeys res) = 1 \<and>
     length (legs (res_journeys res ! 0)) = 3 \<and>
     totalRoadWeight (res_journeys res ! 0) = Fin 1000 \<and>
     totalSeaWeight (res_journeys res ! 0) = Fin 1000"
proof -
  let ?row = "\<lparr>origin = js ''Hamburg'', originCountry = js ''DE'', destination = js ''Shanghai'',
             destinationCountry = js ''CN'', weightKg = Fin 1000\<rparr>"
  have d: "fakeDistance (js ''Hamburg'') (js ''Shanghai'') = Fin 1613"
    by (simp add: fakeDistance_def charCodeSum_def js_def isHighSurrogate_def)
  from journey_weight_once_per_mode [of "[?row]"] obtain res where
    res: "processCsvData [?row] = Inr res" and len: "length (res_journeys res) = length [?row]" and
    every: "\<forall>i<length [?row].
        weight (res_journeys res ! i) = weightKg ([?row] ! i) \<and>
        legs (res_journeys res ! i) =
          calculateJourneyLegs (fakeDistance (origin ([?row] ! i)) (destination ([?row] ! i))) (weightKg ([?row] ! i)) \<and>
        totalRoadWeight (res_journeys res ! i) =
          (if \<exists>leg\<in>set (legs (res_journeys res ! i)). mode leg = Road then weightKg ([?row] ! i) else Fin 0) \<and>
        totalSeaWeight (res_journeys res ! i) =
          (if \<exists>leg\<in>set (legs (res_journeys res ! i)). mode leg = Sea then weightKg ([?row] ! i) else Fin 0) \<and>
        (length (legs (res_journeys res ! i)) = 3 \<longrightarrow>
           map mode (legs (res_journeys res ! i)) = [Road, Sea, Road] \<and>
           totalRoadWeight (res_journeys res ! i) = weightKg ([?row] ! i) \<and>
           totalSeaWeight (res_journeys res ! i) = weightKg ([?row] ! i))"
    by blast
  have "(0::nat) < length [?row]" by simp
  note at0 = every [rule_format, OF this]
  from at0 have "legs (res_journeys res ! 0) =
      calculateJourneyLegs (fakeDistance (origin ([?row] ! 0)) (destination ([?row] ! 0))) (weightKg ([?row] ! 0))"
    by blast
  then have l: "legs (res_journeys res ! 0) =
      calculateJourneyLegs (fakeDistance (js ''Hamburg'') (js ''Shanghai'')) (Fin 1000)"
    by simp
  from at0 have "length (legs (res_journeys res ! 0)) = 3 \<longrightarrow>
           totalRoadWeight (res_journeys res ! 0) = weightKg ([?row] ! 0) \<and>
           totalSeaWeight (res_journeys res ! 0) = weightKg ([?row] ! 0)"
    by blast
  then have w: "length (legs (res_journeys res ! 0)) = 3 \<longrightarrow>
           totalRoadWeight (res_journeys res ! 0) = Fin 1000 \<and>
           totalSeaWeight (res_journeys res ! 0) = Fin 1000"
    by simp
  from l d have three: "length (legs (res_journeys res ! 0)) = 3"
    by (simp add: calculateJourneyLegs_def)
  with res len w show ?thesis by simp
qed

lemma calculateJourneyLegs_first:
  "calculateJourneyLegs d w \<noteq> [] \<and> mode (hd (calculateJourneyLegs d w)) = Road"
  by (simp add: calculateJourneyLegs_def)

lemma toJourney_road:
  "legs (toJourney r i) \<noteq> [] \<and> mode (hd (legs (toJourney r i))) = Road \<and>
   totalRoadWeight (toJourney r i) = weight (toJourney r i)"
  by (simp add: toJourney_fields calculateJourneyLegs_def)

lemma toJourney_short_sea:
  "\<not> js_gt (distance (toJourney r i)) (Fin 1500) \<Longrightarrow> totalSeaWeight (toJourney r i) = Fin 0"
  by (simp add: toJourney_fields calculateJourneyLegs_def)

lemma js_gt_zero_not_zero: "js_gt w (Fin 0) \<Longrightarrow> w \<noteq> Fin 0"
  by auto

lemma res_journeys_member:
  assumes "processCsvData rows = Inr res" "j \<in> set (res_journeys res)"
  shows "\<exists>i<length rows. j = toJourney (rows ! i) i"
proof -
  from assms(2) obtain i where "i < length (res_journeys res)" "res_journeys res ! i = j"
    by (auto simp add: in_set_conv_nth)
  with assms(1) show ?thesis
    by (metis res_journeys_length res_journeys_nth)
qed

section \<open>Pseudo-distance\<close>

lemma foldl_add_sum_list:
  "foldl (\<lambda>acc c. acc + f c) a cs = (a::int) + sum_list (map f cs)"
  by (induction cs arbitrary: a) simp_all

lemma charCodeSum_sum_list: "charCodeSum str = sum_list (map charCodeAt0 (spread str))"
  by (simp add: charCodeSum_def foldl_add_sum_list)

lemma no_pair_code_points:
  "(\<And>h l. SurrogatePair h l \<notin> set cs) \<Longrightarrow> map codePoint cs = map charCodeAt0 cs"
proof (induction cs)
  case Nil
  show ?case by simp
next
  case (Cons c cs)
  then show ?case by (cases c) auto
qed

text \<open>
  Claim C3, as the code has it. The distance of two strings is the sum, over the
  characters of the concatenation, of the first code unit of each character, modulo 3000,
  plus 100. The first code unit is the code point for every character outside the
  surrogate pairs, so the distance is the sum of the code points modulo 3000 plus 100
  when the concatenation holds no surrogate pair. The function has no state: equal
  arguments give equal results.
\<close>

theorem fakeDistance_char_codes:
  "fakeDistance a b = Fin (of_int (\<bar>sum_list (map charCodeAt0 (spread (a @ b)))\<bar> mod 3000 + 100)) \<and>
   ((\<forall>h l. SurrogatePair h l \<notin> set (spread (a @ b))) \<longrightarrow>
      fakeDistance a b = Fin (of_int (\<bar>sum_list (map codePoint (spread (a @ b)))\<bar> mod 3000 + 100))) \<and>
   (a = a' \<and> b = b' \<longrightarrow> fakeDistance a b = fakeDistance a' b')"
proof -
  have 1: "fakeDistance a b = Fin (of_int (\<bar>sum_list (map charCodeAt0 (spread (a @ b)))\<bar> mod 3000 + 100))"
    by (simp add: fakeDistance_def charCodeSum_sum_list)
  have 2: "fakeDistance a b = Fin (of_int (\<bar>sum_list (map codePoint (spread (a @ b)))\<bar> mod 3000 + 100))"
    if "\<forall>h l. SurrogatePair h l \<notin> set (spread (a @ b))"
  proof -
    from that have "map codePoint (spread (a @ b)) = map charCodeAt0 (spread (a @ b))"
      by (intro no_pair_code_points) blast
    with 1 show ?thesis by (simp only:)
  qed
  from 1 2 show ?thesis by blast
qed

theorem fakeDistance_char_codes_witness:
  "(\<forall>h l. SurrogatePair h l \<notin> set (spread (js ''A'' @ js ''B''))) \<and>
   fakeDistance (js ''A'') (js ''B'') = Fin 231 \<and>
   Fin (of_int (\<bar>sum_list (map codePoint (spread (js ''A'' @ js ''B'')))\<bar> mod 3000 + 100)) = Fin 231"
proof -
  have s: "spread (js ''A'' @ js ''B'') = [CodeUnit 65, CodeUnit 66]"
    by (simp add: js_def isHighSurrogate_def)
  then have np: "\<forall>h l. SurrogatePair h l \<notin> set (spread (js ''A'' @ js ''B''))" by simp
  with fakeDistance_char_codes [of "js ''A''" "js ''B''"]
  have "fakeDistance (js ''A'') (js ''B'') =
      Fin (of_int (\<bar>sum_list (map codePoint (spread (js ''A'' @ js ''B'')))\<bar> mod 3000 + 100))"
    by blast
  moreover have "Fin (of_int (\<bar>sum_list (map codePoint (spread (js ''A'' @ js ''B'')))\<bar> mod 3000 + 100)) = Fin 231"
    by (simp add: s)
  ultimately show ?thesis using np by simp
qed

text \<open>
  The character U+1F600 is the surrogate pair D83D DE00. It counts with its first code
  unit 55357, not with its code point 128512: the distance is 1457, and the sum of the
  code points would give 2612.
\<close>

theorem fakeDistance_code_points_counterexample:
  "fakeDistance [0xD83D, 0xDE00] [] = Fin 1457 \<and>
   Fin (of_int (\<bar>sum_list (map codePoint (spread ([0xD83D, 0xDE00] @ [])))\<bar> mod 3000 + 100)) = Fin 2612 \<and>
   fakeDistance [0xD83D, 0xDE00] [] \<noteq>
     Fin (of_int (\<bar>sum_list (map codePoint (spread ([0xD83D, 0xDE00] @ [])))\<bar> mod 3000 + 100))"
  by (simp add: fakeDistance_def charCodeSum_def isHighSurrogate_def isLowSurrogate_def)

section \<open>Route groups\<close>

lemma toRouteGroup_Cons:
  "toRouteGroup (k, x # xs) =
     Inr \<lparr>routeKey = k,
          group_route = \<lparr>group_origin = route_origin (route x),
                         group_destination = route_destination (route x)\<rparr>,
          group_distance = distance x,
          timesTaken = length (x # xs),
          totalDistance = js_mul (distance x) (Fin (of_nat (length (x # xs)))),
          modes = getTransportModesString (legs x),
          totalWeight = sumOf weight (x # xs),
          group_totalRoadWeight = sumOf totalRoadWeight (x # xs),
          group_totalSeaWeight = sumOf totalSeaWeight (x # xs),
          journeys = x # xs\<rparr>"
  by (simp add: toRouteGroup_def Let_def)

lemma res_routeGroups_member:
  assumes "processCsvData rows = Inr res" "g \<in> set (res_routeGroups res)"
  shows "\<exists>k x xs. (k, x # xs) \<in> set (buildRouteMap (res_journeys res)) \<and>
           toRouteGroup (k, x # xs) = Inr g \<and>
           x # xs = filter (\<lambda>j. routeKeyOf j = k) (res_journeys res)"
proof -
  let ?jl = "map (\<lambda>(index, row). toJourney row index) (enumerate 0 rows)"
  from assms(1) have j: "res_journeys res = ?jl"
    and gs: "res_routeGroups res = map (\<lambda>e. projr (toRouteGroup e)) (buildRouteMap ?jl)"
    by (auto simp add: processCsvData_total)
  from assms(2) gs obtain e where e: "e \<in> set (buildRouteMap ?jl)" "g = projr (toRouteGroup e)"
    by auto
  obtain k v where kv: "e = (k, v)" by (cases e)
  with e(1) buildRouteMap_entry have v: "v = filter (\<lambda>j. routeKeyOf j = k) ?jl" "v \<noteq> []"
    by blast+
  from v(2) obtain x xs where c: "v = x # xs" by (cases v) auto
  with e(2) kv have "toRouteGroup (k, x # xs) = Inr g"
    by (simp add: toRouteGroup_Cons)
  with e(1) kv c v(1) j show ?thesis by metis
qed







section \<open>Weight validation\<close>

lemma js_le_not_gt: "\<not> isNaN n \<Longrightarrow> js_le n (Fin 0) \<longleftrightarrow> \<not> js_gt n (Fin 0)"
  by (cases n) simp_all

lemma Math_abs_NaN: "isNaN (Math_abs n) \<longleftrightarrow> isNaN n"
  by (cases n) simp_all

lemma Math_abs_positive: "\<not> isNaN n \<Longrightarrow> js_gt (Math_abs n) (Fin 0) \<longleftrightarrow> n \<noteq> Fin 0"
  by (cases n) auto

lemma weightKgSchema_cases:
  "weightKgSchema v =
     (let n = parseFloatString v
      in if isNaN n then Inl [invalidType ''number'' F_weightKg v]
         else if js_gt (Math_abs n) (Fin 0) then Inr (Math_abs n)
         else Inl [\<lparr>code = too_small, path = [F_weightKg],
                    message = ''Weight must be a positive number''\<rparr>])"
proof (cases "isNaN (parseFloatString v)")
  case True
  then have "preprocessWeight v = v" by (simp add: preprocessWeight_def)
  moreover from True have "z_number_positive m F_weightKg v = Inl [invalidType ''number'' F_weightKg v]" for m
    by (cases v) (simp_all add: z_number_positive_def)
  ultimately show ?thesis using True by (simp add: weightKgSchema_def)
next
  case False
  then have "preprocessWeight v = JNum (Math_abs (parseFloatString v))"
    by (simp add: preprocessWeight_def)
  with False show ?thesis
    by (simp add: weightKgSchema_def z_number_positive_def Math_abs_NaN js_le_not_gt)
qed

lemma weightKgSchema_issue_path:
  "weightKgSchema v = Inl is \<Longrightarrow> is \<noteq> [] \<and> list_all (\<lambda>i. path i = [F_weightKg]) is"
  by (auto simp add: weightKgSchema_cases Let_def invalidType_def split: if_splits)

lemma safeParse_rowIssues:
  "safeParse row =
     (case (z_string_trim_min1 ''Origin is required'' F_origin (raw_origin row),
            z_string_trim_default F_originCountry (raw_originCountry row),
            z_string_trim_min1 ''Destination is required'' F_destination (raw_destination row),
            z_string_trim_default F_destinationCountry (raw_destinationCountry row),
            weightKgSchema (raw_weightKg row)) of
        (Inr a, Inr b, Inr c, Inr d, Inr e) \<Rightarrow>
          Success \<lparr>origin = a, originCountry = b, destination = c, destinationCountry = d, weightKg = e\<rparr>
      | _ \<Rightarrow> Failure (rowIssues row))"
  by (simp add: safeParse_def rowIssues_def Let_def split: sum.splits)

lemma schema_issues_nonempty:
  "z_string_trim_min1 m f v = Inl is \<Longrightarrow> is \<noteq> []"
  "z_string_trim_default f v = Inl is \<Longrightarrow> is \<noteq> []"
  by (auto simp add: z_string_trim_min1_def z_string_trim_default_def Let_def split: rawval.splits if_splits)

lemma safeParse_outcome:
  "rowIssues row \<noteq> [] \<Longrightarrow> safeParse row = Failure (rowIssues row)"
  "rowIssues row = [] \<Longrightarrow> \<exists>d. safeParse row = Success d"
  by (auto simp add: safeParse_rowIssues rowIssues_def split: sum.splits
      dest: schema_issues_nonempty weightKgSchema_issue_path)

lemmas parse_eval = parseFloat_def js_def isWhiteSpace_def isDigit_def digitsValue_def
  exponentFactor_def exponentDigits_def Let_def

lemma safeParse_weight_failure:
  assumes "weightKgSchema (raw_weightKg row) = Inl is"
  shows "\<exists>all. safeParse row = Failure all \<and> set is \<subseteq> set all"
proof -
  from assms have "safeParse row = Failure (rowIssues row)"
    by (simp add: safeParse_rowIssues split: sum.splits)
  moreover from assms have "set is \<subseteq> set (rowIssues row)"
    by (auto simp add: rowIssues_def)
  ultimately show ?thesis by blast
qed

text \<open>
  Claim C7, as the code has it. The weight is read with \<^verbatim>\<open>parseFloat(String(val))\<close>.
  When that is a number \<open>n\<close> (not NaN), the validated weight is its absolute value,
  unless \<open>n\<close> is 0, which is rejected with the schema's message; a string with a leading
  minus sign such as \<^verbatim>\<open>"-500"\<close> validates to 500. When it is NaN (a non-numeric string,
  \<^verbatim>\<open>null\<close>, \<^verbatim>\<open>undefined\<close>) the value is rejected as not a number. A rejected weight
  gives issues on the path \<open>weightKg\<close> only, and the row fails with them among its
  issues. The schema asks for a positive number and has no check for finiteness:
  \<^verbatim>\<open>"Infinity"\<close> validates to the weight \<open>PosInf\<close>.
\<close>

theorem weightKg_validation:
  "weightKgSchema v =
     (let n = parseFloatString v
      in if isNaN n then Inl [invalidType ''number'' F_weightKg v]
         else if js_gt (Math_abs n) (Fin 0) then Inr (Math_abs n)
         else Inl [\<lparr>code = too_small, path = [F_weightKg],
                    message = ''Weight must be a positive number''\<rparr>]) \<and>
   (\<not> isNaN (parseFloatString v) \<longrightarrow>
      (js_gt (Math_abs (parseFloatString v)) (Fin 0) \<longleftrightarrow> parseFloatString v \<noteq> Fin 0)) \<and>
   (\<forall>is. weightKgSchema (raw_weightKg row) = Inl is \<longrightarrow>
      is \<noteq> [] \<and> list_all (\<lambda>i. path i = [F_weightKg]) is \<and>
      (\<exists>all. safeParse row = Failure all \<and> set is \<subseteq> set all)) \<and>
   parseFloatString (JStr (js ''-500'')) = Fin (- 500) \<and>
   weightKgSchema (JStr (js ''-500'')) = Inr (Fin 500) \<and>
   weightKgSchema (JNum (Fin (- 500))) = Inr (Fin 500) \<and>
   weightKgSchema (JNum (Fin 0)) =
     Inl [\<lparr>code = too_small, path = [F_weightKg], message = ''Weight must be a positive number''\<rparr>] \<and>
   weightKgSchema (JStr (js ''not a number'')) =
     Inl [\<lparr>code = invalid_type, path = [F_weightKg], message = ''Expected number, received string''\<rparr>] \<and>
   weightKgSchema JNull =
     Inl [\<lparr>code = invalid_type, path = [F_weightKg], message = ''Expected number, received null''\<rparr>] \<and>
   weightKgSchema JUndefined =
     Inl [\<lparr>code = invalid_type, path = [F_weightKg], message = ''Required''\<rparr>] \<and>
   weightKgSchema (JStr (js ''Infinity'')) = Inr PosInf"
proof -
  have p500: "parseFloat (js ''-500'') = Fin (- 500)"
    by (simp add: parse_eval)
  have pnan: "parseFloat (js ''not a number'') = NaN" "parseFloat (js ''null'') = NaN"
    "parseFloat (js ''undefined'') = NaN"
    by (simp_all add: parse_eval)
  have pinf: "parseFloat (js ''Infinity'') = PosInf"
    by (simp add: parse_eval)
  have a: "\<forall>is. weightKgSchema (raw_weightKg row) = Inl is \<longrightarrow>
      is \<noteq> [] \<and> list_all (\<lambda>i. path i = [F_weightKg]) is \<and>
      (\<exists>all. safeParse row = Failure all \<and> set is \<subseteq> set all)"
    using weightKgSchema_issue_path safeParse_weight_failure by blast
  have b: "weightKgSchema (JStr (js ''-500'')) = Inr (Fin 500)"
    "weightKgSchema (JNum (Fin (- 500))) = Inr (Fin 500)"
    "weightKgSchema (JNum (Fin 0)) =
     Inl [\<lparr>code = too_small, path = [F_weightKg], message = ''Weight must be a positive number''\<rparr>]"
    "weightKgSchema (JStr (js ''not a number'')) =
     Inl [\<lparr>code = invalid_type, path = [F_weightKg], message = ''Expected number, received string''\<rparr>]"
    "weightKgSchema JNull =
     Inl [\<lparr>code = invalid_type, path = [F_weightKg], message = ''Expected number, received null''\<rparr>]"
    "weightKgSchema JUndefined =
     Inl [\<lparr>code = invalid_type, path = [F_weightKg], message = ''Required''\<rparr>]"
    "weightKgSchema (JStr (js ''Infinity'')) = Inr PosInf"
    by (simp_all add: weightKgSchema_cases p500 pnan pinf invalidType_def)
  from a b p500 weightKgSchema_cases [of v] Math_abs_positive [of "parseFloatString v"]
  show ?thesis by simp
qed

theorem weightKg_validation_witness:
  "\<not> isNaN (parseFloatString (JStr (js ''-500''))) \<and>
   js_gt (Math_abs (parseFloatString (JStr (js ''-500'')))) (Fin 0) \<and>
   weightKgSchema (JStr (js ''-500'')) = Inr (Fin 500) \<and>
   weightKgSchema (raw_weightKg
      \<lparr>raw_origin = JStr (js ''London''), raw_originCountry = JUndefined,
       raw_destination = JStr (js ''Dubai''), raw_destinationCountry = JUndefined,
       raw_weightKg = JNum (Fin 0)\<rparr>) =
     Inl [\<lparr>code = too_small, path = [F_weightKg], message = ''Weight must be a positive number''\<rparr>] \<and>
   (\<exists>all. safeParse
      \<lparr>raw_origin = JStr (js ''London''), raw_originCountry = JUndefined,
       raw_destination = JStr (js ''Dubai''), raw_destinationCountry = JUndefined,
       raw_weightKg = JNum (Fin 0)\<rparr> = Failure all \<and>
      \<lparr>code = too_small, path = [F_weightKg], message = ''Weight must be a positive number''\<rparr> \<in> set all)"
proof -
  let ?row = "\<lparr>raw_origin = JStr (js ''London''), raw_originCountry = JUndefined,
       raw_destination = JStr (js ''Dubai''), raw_destinationCountry = JUndefined,
       raw_weightKg = JNum (Fin 0)\<rparr>"
  note t = weightKg_validation [of "JStr (js ''-500'')" ?row]
  from t have p: "parseFloatString (JStr (js ''-500'')) = Fin (- 500)"
    and w: "weightKgSchema (JStr (js ''-500'')) = Inr (Fin 500)"
    and z: "weightKgSchema (JNum (Fin 0)) =
     Inl [\<lparr>code = too_small, path = [F_weightKg], message = ''Weight must be a positive number''\<rparr>]"
    and f: "\<forall>is. weightKgSchema (raw_weightKg ?row) = Inl is \<longrightarrow>
      is \<noteq> [] \<and> list_all (\<lambda>i. path i = [F_weightKg]) is \<and>
      (\<exists>all. safeParse ?row = Failure all \<and> set is \<subseteq> set all)"
    by blast+
  from z have z': "weightKgSchema (raw_weightKg ?row) =
     Inl [\<lparr>code = too_small, path = [F_weightKg], message = ''Weight must be a positive number''\<rparr>]"
    by simp
  with f have "\<exists>all. safeParse ?row = Failure all \<and>
      set [\<lparr>code = too_small, path = [F_weightKg], message = ''Weight must be a positive number''\<rparr>] \<subseteq> set all"
    by blast
  then have "\<exists>all. safeParse ?row = Failure all \<and>
      \<lparr>code = too_small, path = [F_weightKg], message = ''Weight must be a positive number''\<rparr> \<in> set all"
    by simp
  with p w z' show ?thesis by simp
qed

text \<open>
  A row whose weight is the string \<^verbatim>\<open>Infinity\<close>: the coerced value is not finite, and the
  row is accepted.
\<close>

theorem infinite_weight_accepted_counterexample:
  "parseFloatString (JStr (js ''Infinity'')) = PosInf \<and>
   safeParse \<lparr>raw_origin = JStr (js ''London''), raw_originCountry = JStr (js ''UK''),
              raw_destination = JStr (js ''Dubai''), raw_destinationCountry = JStr (js ''UAE''),
              raw_weightKg = JStr (js ''Infinity'')\<rparr> =
     Success \<lparr>origin = js ''London'', originCountry = js ''UK'', destination = js ''Dubai'',
              destinationCountry = js ''UAE'', weightKg = PosInf\<rparr>"
  by (simp add: safeParse_def weightKgSchema_def preprocessWeight_def z_number_positive_def
      z_string_trim_min1_def z_string_trim_default_def trim_def parse_eval)

section \<open>Partial success of the row validator\<close>

lemma validateRow_valid:
  "validRows (validateRow acc (i, row)) =
     validRows acc @ (case safeParse row of Success d \<Rightarrow> [d] | Failure _ \<Rightarrow> [])"
  by (simp add: validateRow_def split: SafeParseResult.splits)

lemma validateRow_errors:
  "result_errors (validateRow acc (i, row)) =
     result_errors acc @
       (case safeParse row of Success _ \<Rightarrow> [] | Failure is \<Rightarrow> [\<lparr>rowIndex = i + 1, errors = is\<rparr>])"
  by (simp add: validateRow_def split: SafeParseResult.splits)

lemma foldl_validateRow_valid:
  "validRows (foldl validateRow acc es) =
     validRows acc @
       List.map_filter (\<lambda>row. case safeParse row of Success d \<Rightarrow> Some d | Failure _ \<Rightarrow> None) (map snd es)"
proof (induction es arbitrary: acc)
  case Nil
  show ?case by (simp add: map_filter_simps)
next
  case (Cons e es)
  obtain i row where e: "e = (i, row)" by (cases e)
  show ?case
    by (simp add: Cons e validateRow_valid map_filter_simps split: SafeParseResult.splits)
qed

lemma foldl_validateRow_errors:
  "result_errors (foldl validateRow acc es) =
     result_errors acc @
       List.map_filter (\<lambda>(index, row). case safeParse row of Success _ \<Rightarrow> None
          | Failure is \<Rightarrow> Some \<lparr>rowIndex = index + 1, errors = is\<rparr>) es"
proof (induction es arbitrary: acc)
  case Nil
  show ?case by (simp add: map_filter_simps)
next
  case (Cons e es)
  obtain i row where e: "e = (i, row)" by (cases e)
  show ?case
    by (simp add: Cons e validateRow_errors map_filter_simps split: SafeParseResult.splits)
qed

lemma parseCsvFile_validRows:
  "validRows (parseCsvFile data) =
     List.map_filter (\<lambda>row. case safeParse row of Success d \<Rightarrow> Some d | Failure _ \<Rightarrow> None) data"
  by (simp add: parseCsvFile_def foldl_validateRow_valid)

lemma parseCsvFile_errors:
  "result_errors (parseCsvFile data) =
     List.map_filter (\<lambda>(index, row). case safeParse row of Success _ \<Rightarrow> None
        | Failure is \<Rightarrow> Some \<lparr>rowIndex = index + 1, errors = is\<rparr>) (enumerate 0 data)"
  by (simp add: parseCsvFile_def foldl_validateRow_errors)

lemma partition_lengths:
  "length (List.map_filter (\<lambda>row. case safeParse row of Success d \<Rightarrow> Some d | Failure _ \<Rightarrow> None) data) +
   length (List.map_filter (\<lambda>(index, row). case safeParse row of Success _ \<Rightarrow> None
        | Failure is \<Rightarrow> Some \<lparr>rowIndex = index + 1, errors = is\<rparr>) (enumerate n data)) = length data"
  by (induction data arbitrary: n) (simp_all add: map_filter_simps split: SafeParseResult.splits)

lemma set_map_filter:
  "set (List.map_filter f xs) = {y. \<exists>x\<in>set xs. f x = Some y}"
  by (induction xs) (auto split: option.splits)

lemma safeParse_Failure_rowIssues:
  "safeParse row = Failure is \<Longrightarrow> is = rowIssues row \<and> is \<noteq> []"
  using safeParse_outcome [of row] by (cases "rowIssues row = []") auto

lemma row_outcome:
  assumes "i < length data"
  shows "case safeParse (data ! i) of
       Success d \<Rightarrow> d \<in> set (validRows (parseCsvFile data)) \<and>
         (\<forall>e\<in>set (result_errors (parseCsvFile data)). rowIndex e \<noteq> i + 1)
     | Failure is \<Rightarrow> is = rowIssues (data ! i) \<and> is \<noteq> [] \<and>
         \<lparr>rowIndex = i + 1, errors = is\<rparr> \<in> set (result_errors (parseCsvFile data))"
proof (cases "safeParse (data ! i)")
  case (Success d)
  from assms have m: "data ! i \<in> set data" by simp
  have "d \<in> set (validRows (parseCsvFile data))"
    unfolding parseCsvFile_validRows set_map_filter using m Success by force
  moreover have "rowIndex e \<noteq> i + 1" if "e \<in> set (result_errors (parseCsvFile data))" for e
  proof
    assume r: "rowIndex e = i + 1"
    from that obtain k row where kr: "(k, row) \<in> set (enumerate 0 data)"
      and ke: "(case safeParse row of Success _ \<Rightarrow> None
        | Failure is \<Rightarrow> Some \<lparr>rowIndex = k + 1, errors = is\<rparr>) = Some e"
      unfolding parseCsvFile_errors set_map_filter by auto
    from ke r have "k = i" and "\<exists>is. safeParse row = Failure is"
      by (auto split: SafeParseResult.splits)
    moreover from kr have "row = data ! k" by (auto simp add: in_set_enumerate_eq)
    ultimately show False using Success by auto
  qed
  ultimately show ?thesis using Success by simp
next
  case (Failure "is")
  from assms have "(i, data ! i) \<in> set (enumerate 0 data)"
    by (simp add: in_set_enumerate_eq)
  with Failure have "\<lparr>rowIndex = i + 1, errors = is\<rparr> \<in> set (result_errors (parseCsvFile data))"
    unfolding parseCsvFile_errors set_map_filter by force
  moreover from safeParse_Failure_rowIssues [OF Failure]
  have "is = rowIssues (data ! i)" "is \<noteq> []" by blast+
  ultimately show ?thesis using Failure by simp
qed

lemma failed_row_dropped:
  assumes "safeParse bad = Failure is"
  shows "validRows (parseCsvFile (xs @ bad # ys)) = validRows (parseCsvFile (xs @ ys))"
  using assms by (simp add: parseCsvFile_validRows List.map_filter_def)


lemmas schema_eval = safeParse_def rowIssues_def weightKgSchema_def preprocessWeight_def
  z_number_positive_def z_string_trim_min1_def z_string_trim_default_def trim_def invalidType_def

text \<open>
  Claim C6. The valid rows are the parsed data of the records that pass the schema, in
  their order; the errors are one entry for each record that fails, in their order,
  with the record's position counted from 1. Every record gives exactly one of the two:
  the lengths add up to the number of records, a record that passes is among the valid
  rows and no error entry carries its position, and a record that fails has the entry
  with its position and all its field failures. Taking a failing record out of the
  input (or putting it in) leaves the valid rows as they are. A record fails exactly
  when one of its fields fails, and its error entry holds the failures of all its
  fields together: an empty origin, an empty destination and a non-numeric weight give
  three issues.
\<close>

theorem parseCsvFile_partial_success:
  "validRows (parseCsvFile data) =
     List.map_filter (\<lambda>row. case safeParse row of Success d \<Rightarrow> Some d | Failure _ \<Rightarrow> None) data \<and>
   result_errors (parseCsvFile data) =
     List.map_filter (\<lambda>(index, row). case safeParse row of Success _ \<Rightarrow> None
        | Failure is \<Rightarrow> Some \<lparr>rowIndex = index + 1, errors = is\<rparr>) (enumerate 0 data) \<and>
   length (validRows (parseCsvFile data)) + length (result_errors (parseCsvFile data)) = length data \<and>
   (\<forall>i<length data.
      case safeParse (data ! i) of
        Success d \<Rightarrow> d \<in> set (validRows (parseCsvFile data)) \<and>
          (\<forall>e\<in>set (result_errors (parseCsvFile data)). rowIndex e \<noteq> i + 1)
      | Failure is \<Rightarrow> is = rowIssues (data ! i) \<and> is \<noteq> [] \<and>
          \<lparr>rowIndex = i + 1, errors = is\<rparr> \<in> set (result_errors (parseCsvFile data))) \<and>
   ((\<exists>is. safeParse bad = Failure is) \<longrightarrow>
      validRows (parseCsvFile (xs @ bad # ys)) = validRows (parseCsvFile (xs @ ys))) \<and>
   (rowIssues row = [] \<longrightarrow> (\<exists>d. safeParse row = Success d)) \<and>
   (rowIssues row \<noteq> [] \<longrightarrow> safeParse row = Failure (rowIssues row)) \<and>
   rowIssues \<lparr>raw_origin = JStr [], raw_originCountry = JUndefined,
              raw_destination = JStr (js ''   ''), raw_destinationCountry = JUndefined,
              raw_weightKg = JStr (js ''invalid weight'')\<rparr> =
     [\<lparr>code = too_small, path = [F_origin], message = ''Origin is required''\<rparr>,
      \<lparr>code = too_small, path = [F_destination], message = ''Destination is required''\<rparr>,
      \<lparr>code = invalid_type, path = [F_weightKg], message = ''Expected number, received string''\<rparr>]"
proof -
  have len: "length (validRows (parseCsvFile data)) + length (result_errors (parseCsvFile data)) = length data"
    unfolding parseCsvFile_validRows parseCsvFile_errors by (rule partition_lengths)
  have every: "\<forall>i<length data.
      case safeParse (data ! i) of
        Success d \<Rightarrow> d \<in> set (validRows (parseCsvFile data)) \<and>
          (\<forall>e\<in>set (result_errors (parseCsvFile data)). rowIndex e \<noteq> i + 1)
      | Failure is \<Rightarrow> is = rowIssues (data ! i) \<and> is \<noteq> [] \<and>
          \<lparr>rowIndex = i + 1, errors = is\<rparr> \<in> set (result_errors (parseCsvFile data))"
    using row_outcome by blast
  have drop: "(\<exists>is. safeParse bad = Failure is) \<longrightarrow>
      validRows (parseCsvFile (xs @ bad # ys)) = validRows (parseCsvFile (xs @ ys))"
    using failed_row_dropped by blast
  have ok: "rowIssues row = [] \<longrightarrow> (\<exists>d. safeParse row = Success d)"
    using safeParse_outcome(2) by blast
  have bad: "rowIssues row \<noteq> [] \<longrightarrow> safeParse row = Failure (rowIssues row)"
    using safeParse_outcome(1) by blast
  have three: "rowIssues \<lparr>raw_origin = JStr [], raw_originCountry = JUndefined,
              raw_destination = JStr (js ''   ''), raw_destinationCountry = JUndefined,
              raw_weightKg = JStr (js ''invalid weight'')\<rparr> =
     [\<lparr>code = too_small, path = [F_origin], message = ''Origin is required''\<rparr>,
      \<lparr>code = too_small, path = [F_destination], message = ''Destination is required''\<rparr>,
      \<lparr>code = invalid_type, path = [F_weightKg], message = ''Expected number, received string''\<rparr>]"
    by (simp add: schema_eval parse_eval)
  from parseCsvFile_validRows [of data] parseCsvFile_errors [of data] len every drop ok bad three
  show ?thesis by (intro conjI)
qed

theorem parseCsvFile_partial_success_witness:
  "validRows (parseCsvFile
     [\<lparr>raw_origin = JStr (js ''London''), raw_originCountry = JStr (js ''UK''),
       raw_destination = JStr (js ''Paris''), raw_destinationCountry = JStr (js ''FR''),
       raw_weightKg = JNum (Fin 100)\<rparr>,
      \<lparr>raw_origin = JStr (js '' ''), raw_originCountry = JStr (js ''ES''),
       raw_destination = JStr (js ''Rome''), raw_destinationCountry = JStr (js ''IT''),
       raw_weightKg = JNum (Fin 300)\<rparr>,
      \<lparr>raw_origin = JStr (js '' Madrid''), raw_originCountry = JUndefined,
       raw_destination = JStr (js ''Rome ''), raw_destinationCountry = JUndefined,
       raw_weightKg = JStr (js ''-500'')\<rparr>]) =
     [\<lparr>origin = js ''London'', originCountry = js ''UK'', destination = js ''Paris'',
       destinationCountry = js ''FR'', weightKg = Fin 100\<rparr>,
      \<lparr>origin = js ''Madrid'', originCountry = [], destination = js ''Rome'',
       destinationCountry = [], weightKg = Fin 500\<rparr>] \<and>
   result_errors (parseCsvFile
     [\<lparr>raw_origin = JStr (js ''London''), raw_originCountry = JStr (js ''UK''),
       raw_destination = JStr (js ''Paris''), raw_destinationCountry = JStr (js ''FR''),
       raw_weightKg = JNum (Fin 100)\<rparr>,
      \<lparr>raw_origin = JStr (js '' ''), raw_originCountry = JStr (js ''ES''),
       raw_destination = JStr (js ''Rome''), raw_destinationCountry = JStr (js ''IT''),
       raw_weightKg = JNum (Fin 300)\<rparr>,
      \<lparr>raw_origin = JStr (js '' Madrid''), raw_originCountry = JUndefined,
       raw_destination = JStr (js ''Rome ''), raw_destinationCountry = JUndefined,
       raw_weightKg = JStr (js ''-500'')\<rparr>]) =
     [\<lparr>rowIndex = 2,
       errors = [\<lparr>code = too_small, path = [F_origin], message = ''Origin is required''\<rparr>]\<rparr>]"
proof -
  let ?r1 = "\<lparr>raw_origin = JStr (js ''London''), raw_originCountry = JStr (js ''UK''),
       raw_destination = JStr (js ''Paris''), raw_destinationCountry = JStr (js ''FR''),
       raw_weightKg = JNum (Fin 100)\<rparr>"
  let ?r2 = "\<lparr>raw_origin = JStr (js '' ''), raw_originCountry = JStr (js ''ES''),
       raw_destination = JStr (js ''Rome''), raw_destinationCountry = JStr (js ''IT''),
       raw_weightKg = JNum (Fin 300)\<rparr>"
  let ?r3 = "\<lparr>raw_origin = JStr (js '' Madrid''), raw_originCountry = JUndefined,
       raw_destination = JStr (js ''Rome ''), raw_destinationCountry = JUndefined,
       raw_weightKg = JStr (js ''-500'')\<rparr>"
  have s1: "safeParse ?r1 = Success \<lparr>origin = js ''London'', originCountry = js ''UK'',
       destination = js ''Paris'', destinationCountry = js ''FR'', weightKg = Fin 100\<rparr>"
    by (simp add: schema_eval parse_eval)
  have s2: "safeParse ?r2 =
      Failure [\<lparr>code = too_small, path = [F_origin], message = ''Origin is required''\<rparr>]"
    by (simp add: schema_eval parse_eval)
  have s3: "safeParse ?r3 = Success \<lparr>origin = js ''Madrid'', originCountry = [],
       destination = js ''Rome'', destinationCountry = [], weightKg = Fin 500\<rparr>"
    by (simp add: schema_eval parse_eval)
  note t = parseCsvFile_partial_success [of "[?r1, ?r2, ?r3]"]
  from t [THEN conjunct1] t [THEN conjunct2, THEN conjunct1] show ?thesis
    by (simp add: s1 s2 s3 enumerate_eq_zip upt_rec)
qed

lemma weightKgSchema_positive: "weightKgSchema v = Inr w \<Longrightarrow> js_gt w (Fin 0)"
  by (auto simp add: weightKgSchema_cases Let_def split: if_splits)

lemma safeParse_Success_weight: "safeParse row = Success d \<Longrightarrow> js_gt (weightKg d) (Fin 0)"
  by (auto simp add: safeParse_rowIssues split: sum.splits dest: weightKgSchema_positive)

lemma validRows_positive:
  assumes "r \<in> set (validRows (parseCsvFile data))"
  shows "js_gt (weightKg r) (Fin 0)"
proof -
  from assms obtain row where
    "(case safeParse row of Success d \<Rightarrow> Some d | Failure _ \<Rightarrow> None) = Some r"
    unfolding parseCsvFile_validRows set_map_filter by blast
  then have "safeParse row = Success r"
    by (cases "safeParse row") simp_all
  then show ?thesis by (rule safeParse_Success_weight)
qed

section \<open>Every journey goes by road\<close>

lemma journey_road_props:
  assumes res: "processCsvData rows = Inr res" and j: "j \<in> set (res_journeys res)"
  shows "legs j \<noteq> [] \<and> mode (hd (legs j)) = Road \<and> totalRoadWeight j = weight j \<and>
         (\<not> js_gt (distance j) (Fin 1500) \<longrightarrow> totalSeaWeight j = Fin 0)"
    and "(\<forall>r\<in>set rows. js_gt (weightKg r) (Fin 0)) \<Longrightarrow> totalRoadWeight j \<noteq> Fin 0"
proof -
  from res j obtain i where i: "i < length rows" "j = toJourney (rows ! i) i"
    using res_journeys_member by blast
  from i(2) show "legs j \<noteq> [] \<and> mode (hd (legs j)) = Road \<and> totalRoadWeight j = weight j \<and>
         (\<not> js_gt (distance j) (Fin 1500) \<longrightarrow> totalSeaWeight j = Fin 0)"
    using toJourney_road [of "rows ! i" i] toJourney_short_sea [of "rows ! i" i] by simp
  assume pos: "\<forall>r\<in>set rows. js_gt (weightKg r) (Fin 0)"
  with i(1) have "js_gt (weightKg (rows ! i)) (Fin 0)" by simp
  then have "weightKg (rows ! i) \<noteq> Fin 0" by (rule js_gt_zero_not_zero)
  with i(2) show "totalRoadWeight j \<noteq> Fin 0"
    using toJourney_road [of "rows ! i" i] by (simp add: toJourney_fields(1))
qed

text \<open>
  Claim C10. The leg list is never empty and its first leg is a Road leg, in both
  branches. So every journey the aggregator returns has \<open>totalRoadWeight\<close> equal to its
  weight, which is not 0 when the rows carry positive weights; the rows the validator
  lets through do, so no journey of validated rows has a \<open>totalRoadWeight\<close> of 0.
  \<open>totalSeaWeight\<close> is 0 for every journey of at most 1500 km.
\<close>

theorem every_journey_uses_road:
  "calculateJourneyLegs d w \<noteq> [] \<and> mode (hd (calculateJourneyLegs d w)) = Road \<and>
   (\<exists>res. processCsvData rows = Inr res \<and>
      (\<forall>j\<in>set (res_journeys res).
         legs j \<noteq> [] \<and> mode (hd (legs j)) = Road \<and> totalRoadWeight j = weight j \<and>
         (\<not> js_gt (distance j) (Fin 1500) \<longrightarrow> totalSeaWeight j = Fin 0)) \<and>
      ((\<forall>r\<in>set rows. js_gt (weightKg r) (Fin 0)) \<longrightarrow>
         (\<forall>j\<in>set (res_journeys res). totalRoadWeight j \<noteq> Fin 0))) \<and>
   (\<exists>res. processCsvData (validRows (parseCsvFile data)) = Inr res \<and>
      (\<forall>j\<in>set (res_journeys res). totalRoadWeight j = weight j \<and> totalRoadWeight j \<noteq> Fin 0))"
proof -
  obtain res where res: "processCsvData rows = Inr res"
    by (simp add: processCsvData_total)
  obtain res' where res': "processCsvData (validRows (parseCsvFile data)) = Inr res'"
    by (simp add: processCsvData_total)
  have pos: "\<forall>r\<in>set (validRows (parseCsvFile data)). js_gt (weightKg r) (Fin 0)"
    using validRows_positive by blast
  have "\<exists>res. processCsvData rows = Inr res \<and>
      (\<forall>j\<in>set (res_journeys res).
         legs j \<noteq> [] \<and> mode (hd (legs j)) = Road \<and> totalRoadWeight j = weight j \<and>
         (\<not> js_gt (distance j) (Fin 1500) \<longrightarrow> totalSeaWeight j = Fin 0)) \<and>
      ((\<forall>r\<in>set rows. js_gt (weightKg r) (Fin 0)) \<longrightarrow>
         (\<forall>j\<in>set (res_journeys res). totalRoadWeight j \<noteq> Fin 0))"
    using res journey_road_props [OF res] by blast
  moreover have "\<exists>res. processCsvData (validRows (parseCsvFile data)) = Inr res \<and>
      (\<forall>j\<in>set (res_journeys res). totalRoadWeight j = weight j \<and> totalRoadWeight j \<noteq> Fin 0)"
    using res' journey_road_props [OF res'] pos by blast
  ultimately show ?thesis
    using calculateJourneyLegs_first [of d w] by blast
qed

theorem every_journey_uses_road_witness:
  "js_gt (weightKg \<lparr>origin = js ''A'', originCountry = [], destination = js ''B'',
                    destinationCountry = [], weightKg = Fin 500\<rparr>) (Fin 0) \<and>
   (\<exists>res. processCsvData
           [\<lparr>origin = js ''A'', originCountry = [], destination = js ''B'',
             destinationCountry = [], weightKg = Fin 500\<rparr>] = Inr res \<and>
      length (res_journeys res) = 1 \<and>
      mode (hd (legs (res_journeys res ! 0))) = Road \<and>
      totalRoadWeight (res_journeys res ! 0) = Fin 500 \<and>
      totalRoadWeight (res_journeys res ! 0) \<noteq> Fin 0 \<and>
      totalSeaWeight (res_journeys res ! 0) = Fin 0)"
proof -
  let ?row = "\<lparr>origin = js ''A'', originCountry = [], destination = js ''B'',
             destinationCountry = [], weightKg = Fin 500\<rparr>"
  have d: "fakeDistance (js ''A'') (js ''B'') = Fin 231"
    by (simp add: fakeDistance_def charCodeSum_def js_def isHighSurrogate_def)
  from every_journey_uses_road [of _ _ "[?row]"] obtain res where
    res: "processCsvData [?row] = Inr res" and
    a: "\<forall>j\<in>set (res_journeys res).
         legs j \<noteq> [] \<and> mode (hd (legs j)) = Road \<and> totalRoadWeight j = weight j \<and>
         (\<not> js_gt (distance j) (Fin 1500) \<longrightarrow> totalSeaWeight j = Fin 0)" and
    b: "(\<forall>r\<in>set [?row]. js_gt (weightKg r) (Fin 0)) \<longrightarrow>
         (\<forall>j\<in>set (res_journeys res). totalRoadWeight j \<noteq> Fin 0)"
    by blast
  have len: "length (res_journeys res) = 1"
    using res_journeys_length [OF res] by simp
  then have mem: "res_journeys res ! 0 \<in> set (res_journeys res)" by simp
  have j: "res_journeys res ! 0 = toJourney ?row 0"
    using res_journeys_nth [OF res, of 0] by simp
  have w: "weight (res_journeys res ! 0) = Fin 500" and dist: "distance (res_journeys res ! 0) = Fin 231"
    using d by (simp_all add: j toJourney_fields)
  from a mem w dist have "mode (hd (legs (res_journeys res ! 0))) = Road"
    "totalRoadWeight (res_journeys res ! 0) = Fin 500" "totalSeaWeight (res_journeys res ! 0) = Fin 0"
    by simp_all
  moreover from b mem have "totalRoadWeight (res_journeys res ! 0) \<noteq> Fin 0" by simp
  ultimately show ?thesis using res len by simp
qed

section \<open>Members of a route group\<close>












section \<open>Grouping by route key\<close>

text \<open>
  What the grouping does: the groups carry the distinct route keys of the journeys in the
  order of their first occurrence, and two journeys of a run are in one group exactly
  when their keys are equal. Journeys with the same origin and destination have the same
  key; the converse fails.
\<close>

lemma buildRouteMap_keys:
  "map fst (buildRouteMap jl) = rev (remdups (rev (map routeKeyOf jl)))"
proof (induction jl rule: rev_induct)
  case Nil
  show ?case by (simp add: buildRouteMap_def)
next
  case (snoc j jl)
  have "set (rev (remdups (rev (map routeKeyOf jl)))) = routeKeyOf ` set jl" by simp
  with snoc have keys: "fst ` set (buildRouteMap jl) = routeKeyOf ` set jl"
    by (metis list.set_map)
  show ?case
    by (simp add: buildRouteMap_snoc addToRouteMap_def Let_def update_keys snoc keys)
qed

lemma toRouteGroup_key:
  "toRouteGroup (k, v) = Inr g \<Longrightarrow> routeKey g = k \<and> journeys g = v"
  by (cases v) (auto simp add: toRouteGroup_def Let_def)

lemma res_routeGroups_keys:
  assumes "processCsvData rows = Inr res"
  shows "map routeKey (res_routeGroups res) = rev (remdups (rev (map routeKeyOf (res_journeys res))))"
proof -
  let ?jl = "map (\<lambda>(index, row). toJourney row index) (enumerate 0 rows)"
  from assms have j: "res_journeys res = ?jl"
    and gs: "res_routeGroups res = map (\<lambda>e. projr (toRouteGroup e)) (buildRouteMap ?jl)"
    by (auto simp add: processCsvData_total)
  have "routeKey (projr (toRouteGroup e)) = fst e" if "e \<in> set (buildRouteMap ?jl)" for e
  proof -
    obtain k v where e: "e = (k, v)" by (cases e)
    with that buildRouteMap_entry have "v \<noteq> []" by blast
    then obtain x xs where "v = x # xs" by (cases v) auto
    with e show ?thesis by (simp add: toRouteGroup_Cons)
  qed
  then have "map routeKey (res_routeGroups res) = map fst (buildRouteMap ?jl)"
    unfolding gs by simp
  with j show ?thesis by (simp add: buildRouteMap_keys)
qed

lemma same_group_iff_same_key:
  assumes "processCsvData rows = Inr res"
    and "j1 \<in> set (res_journeys res)" "j2 \<in> set (res_journeys res)"
  shows "(\<exists>g\<in>set (res_routeGroups res). j1 \<in> set (journeys g) \<and> j2 \<in> set (journeys g)) \<longleftrightarrow>
    routeKeyOf j1 = routeKeyOf j2"
proof
  assume "\<exists>g\<in>set (res_routeGroups res). j1 \<in> set (journeys g) \<and> j2 \<in> set (journeys g)"
  then obtain g where g: "g \<in> set (res_routeGroups res)" "j1 \<in> set (journeys g)" "j2 \<in> set (journeys g)"
    by blast
  from assms(1) g(1) obtain k x xs where
    tg: "toRouteGroup (k, x # xs) = Inr g" and
    f: "x # xs = filter (\<lambda>j. routeKeyOf j = k) (res_journeys res)"
    using res_routeGroups_member by blast
  from tg have "journeys g = x # xs" by (simp add: toRouteGroup_key)
  with f g(2,3) show "routeKeyOf j1 = routeKeyOf j2" by simp
next
  assume eq: "routeKeyOf j1 = routeKeyOf j2"
  let ?k = "routeKeyOf j1"
  from assms(2) have "?k \<in> set (rev (remdups (rev (map routeKeyOf (res_journeys res)))))" by simp
  then have "?k \<in> set (map routeKey (res_routeGroups res))"
    by (simp only: res_routeGroups_keys [OF assms(1)])
  then obtain g where g: "g \<in> set (res_routeGroups res)" "routeKey g = ?k" by auto
  from assms(1) g(1) obtain k x xs where
    tg: "toRouteGroup (k, x # xs) = Inr g" and
    f: "x # xs = filter (\<lambda>j. routeKeyOf j = k) (res_journeys res)"
    using res_routeGroups_member by blast
  from tg have "journeys g = x # xs" "routeKey g = k" by (simp_all add: toRouteGroup_key)
  with f g(2) have "journeys g = filter (\<lambda>j. routeKeyOf j = ?k) (res_journeys res)" by simp
  with assms(2,3) eq have "j1 \<in> set (journeys g) \<and> j2 \<in> set (journeys g)" by simp
  with g(1) show "\<exists>g\<in>set (res_routeGroups res). j1 \<in> set (journeys g) \<and> j2 \<in> set (journeys g)"
    by blast
qed

lemma same_pair_same_key:
  "route_origin (route j1) = route_origin (route j2) \<Longrightarrow>
   route_destination (route j1) = route_destination (route j2) \<Longrightarrow> routeKeyOf j1 = routeKeyOf j2"
  by (simp add: routeKeyOf_def)

text \<open>
  Claim C5 asks for one route group for each ordered pair of origin and destination. The
  code groups by the key string, and the arrow of the key can also stand inside an origin
  or a destination: the row from \<open>A \<rightarrow> B\<close> to \<open>C\<close> and the row from \<open>A\<close> to
  \<open>B \<rightarrow> C\<close> have the same key. They end in one group of two journeys, which shows the
  origin and the destination of the first.
\<close>

theorem route_key_collision:
  "case processCsvData
         [\<lparr>origin = js ''A'' @ arrow @ js ''B'', originCountry = [], destination = js ''C'',
           destinationCountry = [], weightKg = Fin 100\<rparr>,
          \<lparr>origin = js ''A'', originCountry = [], destination = js ''B'' @ arrow @ js ''C'',
           destinationCountry = [], weightKg = Fin 200\<rparr>] of
     Inl _ \<Rightarrow> False
   | Inr res \<Rightarrow>
       map (\<lambda>g. (routeKey g, timesTaken g, group_origin (group_route g), group_destination (group_route g),
                  map (\<lambda>j. (route_origin (route j), route_destination (route j))) (journeys g)))
         (res_routeGroups res) =
       [(js ''A'' @ arrow @ js ''B'' @ arrow @ js ''C'', 2, js ''A'' @ arrow @ js ''B'', js ''C'',
         [(js ''A'' @ arrow @ js ''B'', js ''C''), (js ''A'', js ''B'' @ arrow @ js ''C'')])]"
  by code_simp

end
